theory Spec2Isabelle
  imports Main
begin

section \<open>Values of the host language\<close>

text \<open>
  Strings are byte lists: the UTF-8 bytes of the source text. The literals of
  \<^verbatim>\<open>App.tsx\<close> that are not ASCII are written byte by byte.
  Strict equality \<^verbatim>\<open>===\<close> on two strings is equality of the lists.

  An optional, nullable field \<^verbatim>\<open>x?: T | null\<close> has three shapes.
\<close>

datatype 'a nullable = Undefined | Null | Present 'a

text \<open>Truthiness of a string field and of a boolean field.\<close>

fun truthy_str :: "string nullable \<Rightarrow> bool" where
  "truthy_str (Present s) = (s \<noteq> [])"
| "truthy_str _ = False"

fun truthy_bool :: "bool nullable \<Rightarrow> bool" where
  "truthy_bool (Present b) = b"
| "truthy_bool _ = False"

text \<open>
  \<^verbatim>\<open>selectedEmail: string | null\<close> is a \<open>string option\<close>, \<open>None\<close> for
  \<^verbatim>\<open>null\<close>; \<^verbatim>\<open>!selectedEmail\<close> holds for \<^verbatim>\<open>null\<close> and for the empty string.
\<close>

fun truthy_opt :: "string option \<Rightarrow> bool" where
  "truthy_opt None = False"
| "truthy_opt (Some s) = (s \<noteq> [])"

section \<open>Data model\<close>

text \<open>\<^verbatim>\<open>created_at?: string\<close>: \<open>None\<close> is \<^verbatim>\<open>undefined\<close>.\<close>

record User =
  user_id :: string
  email :: string
  created_at :: "string option"

text \<open>
  The number type of \<^verbatim>\<open>confidence_score\<close> is the parameter \<open>'n\<close>. Fields
  whose names occur in two of the source's types carry a prefix here.
\<close>

record 'n Feedback =
  fb_id :: string
  fb_created_at :: string
  fb_user_id :: string
  transcript :: "string nullable"
  intent :: "string nullable"
  item :: "string nullable"
  fb_location :: "string nullable"
  confidence_score :: "'n nullable"
  action_type :: "string nullable"
  was_correct :: "bool nullable"
  corrected_item :: "string nullable"
  corrected_location :: "string nullable"
  corrected_command :: "string nullable"
  fb_note :: "string nullable"
  audio_url :: "string nullable"

text \<open>\<^verbatim>\<open>notes: string | null\<close>: \<open>None\<close> is \<^verbatim>\<open>null\<close>.\<close>

record StoredItem =
  si_id :: string
  item_name :: string
  si_location :: string
  si_notes :: "string option"
  si_created_at :: string

section \<open>The remote query client\<close>

text \<open>
  A query built by \<^verbatim>\<open>supabase.from(t).select(c)\<close> followed by \<^verbatim>\<open>.eq\<close>,
  \<^verbatim>\<open>.order\<close> and \<^verbatim>\<open>.limit\<close>. \<^verbatim>\<open>.order(col)\<close> without options is ascending.
\<close>

record query =
  q_table :: string
  q_columns :: string
  q_eq :: "(string \<times> string) list"
  q_order :: string
  q_ascending :: bool
  q_limit :: "nat option"

text \<open>
  A thrown or returned error object. Every error object is truthy.
\<close>

datatype js_error = Error string | PostgrestError string

text \<open>The awaited \<^verbatim>\<open>{ data, error }\<close> of a query; \<open>None\<close> is \<^verbatim>\<open>null\<close>.\<close>

record 'a response =
  res_data :: "'a list option"
  res_error :: "js_error option"

text \<open>\<^verbatim>\<open>data || []\<close>\<close>

fun data_or_empty :: "'a list option \<Rightarrow> 'a list" where
  "data_or_empty None = []"
| "data_or_empty (Some rows) = rows"

text \<open>
  What \<^verbatim>\<open>await Promise.all([feedback query, items query])\<close> yields: it
  rejects with an error, or it fulfils with both responses.
\<close>

datatype 'n detail_outcome =
  Rejected js_error
| Fulfilled "'n Feedback response" "StoredItem response"

section \<open>Component state and effects\<close>

text \<open>The seven \<^verbatim>\<open>useState\<close> cells of \<^verbatim>\<open>App\<close>.\<close>

record 'n app_state =
  users :: "User list"
  selectedEmail :: "string option"
  feedback :: "'n Feedback list"
  items :: "StoredItem list"
  loading :: bool
  error :: "string option"
  latestUsers :: "User list"

definition initial_state :: "'n app_state" where
  "initial_state =
     \<lparr>users = [], selectedEmail = None, feedback = [], items = [],
      loading = False, error = None, latestUsers = []\<rparr>"

text \<open>An argument of \<^verbatim>\<open>console.error\<close>.\<close>

datatype log_arg = LogStr string | LogErr js_error

text \<open>
  The state, what has been written to the console and the queries sent so far,
  oldest first.
\<close>

record 'n world =
  state :: "'n app_state"
  console :: "log_arg list list"
  network :: "query list"

definition initial_world :: "'n world" where
  "initial_world = \<lparr>state = initial_state, console = [], network = []\<rparr>"

text \<open>
  One effect of the asynchronous functions: a call of a state setter, of
  \<^verbatim>\<open>console.error\<close>, or the sending of a query.
\<close>

datatype 'n effect =
  SetUsers "User list"
| SetFeedback "'n Feedback list"
| SetItems "StoredItem list"
| SetLoading bool
| SetError "string option"
| SetLatestUsers "User list"
| ConsoleError "log_arg list"
| Request query

fun perform :: "'n effect \<Rightarrow> 'n world \<Rightarrow> 'n world" where
  "perform (SetUsers us) w = w\<lparr>state := (state w)\<lparr>users := us\<rparr>\<rparr>"
| "perform (SetFeedback fs) w = w\<lparr>state := (state w)\<lparr>feedback := fs\<rparr>\<rparr>"
| "perform (SetItems is) w = w\<lparr>state := (state w)\<lparr>items := is\<rparr>\<rparr>"
| "perform (SetLoading b) w = w\<lparr>state := (state w)\<lparr>loading := b\<rparr>\<rparr>"
| "perform (SetError e) w = w\<lparr>state := (state w)\<lparr>error := e\<rparr>\<rparr>"
| "perform (SetLatestUsers us) w = w\<lparr>state := (state w)\<lparr>latestUsers := us\<rparr>\<rparr>"
| "perform (ConsoleError args) w = w\<lparr>console := console w @ [args]\<rparr>"
| "perform (Request q) w = w\<lparr>network := network w @ [q]\<rparr>"

definition run :: "'n effect list \<Rightarrow> 'n world \<Rightarrow> 'n world" where
  "run effs w = fold perform effs w"

section \<open>fetchLatestUsers\<close>

definition latest_users_query :: query where
  "latest_users_query =
     \<lparr>q_table = ''user_profiles'', q_columns = ''user_id, email, created_at'',
      q_eq = [], q_order = ''created_at'', q_ascending = False, q_limit = Some 10\<rparr>"

text \<open>Up to the \<^verbatim>\<open>await\<close>, and from it on.\<close>

definition fetchLatestUsers_begin :: "'n effect list" where
  "fetchLatestUsers_begin = [Request latest_users_query]"

definition fetchLatestUsers_resume :: "User response \<Rightarrow> 'n effect list" where
  "fetchLatestUsers_resume res =
     (case res_error res of
        Some e \<Rightarrow> [ConsoleError [LogStr ''Failed to fetch latest users:'', LogErr e]]
      | None \<Rightarrow> [SetLatestUsers (data_or_empty (res_data res))])"

section \<open>fetchUsers\<close>

definition users_query :: query where
  "users_query =
     \<lparr>q_table = ''user_profiles'', q_columns = ''user_id, email'',
      q_eq = [], q_order = ''email'', q_ascending = True, q_limit = None\<rparr>"

definition fetchUsers_begin :: "'n effect list" where
  "fetchUsers_begin = [Request users_query]"

definition fetchUsers_resume :: "User response \<Rightarrow> 'n effect list" where
  "fetchUsers_resume res =
     (case res_error res of
        Some e \<Rightarrow> [SetError (Some ''Failed to load users''), ConsoleError [LogErr e]]
      | None \<Rightarrow> [SetUsers (data_or_empty (res_data res))])"

section \<open>fetchData\<close>

definition feedback_query :: "string \<Rightarrow> query" where
  "feedback_query uid =
     \<lparr>q_table = ''transcript_feedback'', q_columns = ''*'',
      q_eq = [(''user_id'', uid)], q_order = ''created_at'', q_ascending = False,
      q_limit = None\<rparr>"

definition items_query :: "string \<Rightarrow> query" where
  "items_query uid =
     \<lparr>q_table = ''stored_items'', q_columns = ''*'',
      q_eq = [(''user_id'', uid)], q_order = ''created_at'', q_ascending = False,
      q_limit = None\<rparr>"

text \<open>The \<^verbatim>\<open>catch\<close> block and the \<^verbatim>\<open>finally\<close> block.\<close>

definition on_catch :: "js_error \<Rightarrow> 'n effect list" where
  "on_catch err = [SetError (Some ''Failed to load data''), ConsoleError [LogErr err]]"

definition on_finally :: "'n effect list" where
  "on_finally = [SetLoading False]"

text \<open>
  \<^verbatim>\<open>fetchData\<close> up to its \<^verbatim>\<open>await\<close>, over the \<^verbatim>\<open>selectedEmail\<close> and
  \<^verbatim>\<open>users\<close> of the render that created it. The second component is the
  \<^verbatim>\<open>user_id\<close> the two queries were sent with when the function is left waiting
  for them, and \<open>None\<close> when it has finished.
\<close>

definition fetchData_begin ::
  "string option \<Rightarrow> User list \<Rightarrow> 'n effect list \<times> string option" where
  "fetchData_begin sel us =
     (if \<not> truthy_opt sel then ([], None)
      else
        (case find (\<lambda>u. Some (email u) = sel) us of
           None \<Rightarrow>
             ([SetLoading True, SetError None]
                @ on_catch (Error ''User not found'') @ on_finally, None)
         | Some user \<Rightarrow>
             ([SetLoading True, SetError None,
               Request (feedback_query (user_id user)),
               Request (items_query (user_id user))], Some (user_id user))))"

text \<open>\<^verbatim>\<open>feedbackRes.error || itemsRes.error\<close>\<close>

fun error_or :: "js_error option \<Rightarrow> js_error option \<Rightarrow> js_error option" where
  "error_or (Some e) _ = Some e"
| "error_or None e = e"

text \<open>\<^verbatim>\<open>fetchData\<close> from its \<^verbatim>\<open>await\<close> on.\<close>

definition fetchData_resume :: "'n detail_outcome \<Rightarrow> 'n effect list" where
  "fetchData_resume outcome =
     (case outcome of
        Rejected err \<Rightarrow> on_catch err @ on_finally
      | Fulfilled feedbackRes itemsRes \<Rightarrow>
          (case error_or (res_error feedbackRes) (res_error itemsRes) of
             Some err \<Rightarrow> on_catch err @ on_finally
           | None \<Rightarrow>
               [SetFeedback (data_or_empty (res_data feedbackRes)),
                SetItems (data_or_empty (res_data itemsRes))] @ on_finally))"

section \<open>The component as a transition system\<close>

text \<open>
  The world together with what is awaited: the two queries of the first
  \<^verbatim>\<open>useEffect\<close>, and for every \<^verbatim>\<open>fetchData\<close> left waiting the
  \<^verbatim>\<open>user_id\<close> it sent its queries with, oldest first.
\<close>

record 'n component =
  world :: "'n world"
  latest_pending :: bool
  users_pending :: bool
  in_flight :: "string list"

text \<open>
  The second \<^verbatim>\<open>useEffect\<close>: \<^verbatim>\<open>fetchData()\<close> over the committed
  \<^verbatim>\<open>selectedEmail\<close> and \<^verbatim>\<open>users\<close>.
\<close>

definition start_fetchData :: "'n component \<Rightarrow> 'n component" where
  "start_fetchData c =
     (case fetchData_begin (selectedEmail (state (world c))) (users (state (world c))) of
        (effs, waiting) \<Rightarrow>
          c\<lparr>world := run effs (world c),
            in_flight := in_flight c @ (case waiting of None \<Rightarrow> [] | Some uid \<Rightarrow> [uid])\<rparr>)"

text \<open>
  After the first render both effects have run once: the two user queries are
  sent, and \<^verbatim>\<open>fetchData\<close> has run over the initial state.
\<close>

definition mounted :: "'n component" where
  "mounted =
     start_fetchData
       \<lparr>world = run (fetchLatestUsers_begin @ fetchUsers_begin) initial_world,
        latest_pending = True, users_pending = True, in_flight = []\<rparr>"

text \<open>
  What can happen next: the operator picks an option of the selector, or one of
  the awaited queries settles. \<open>DetailSettled i\<close> settles the \<open>i\<close>-th waiting
  \<^verbatim>\<open>fetchData\<close>.
\<close>

datatype 'n event =
  Change string
| LatestUsersSettled "User response"
| UsersSettled "User response"
| DetailSettled nat "'n detail_outcome"

text \<open>
  \<^verbatim>\<open>setSelectedEmail\<close> with the value already held renders nothing anew; a
  new value re-renders and, being a dependency, runs \<^verbatim>\<open>fetchData\<close>.
  \<^verbatim>\<open>setUsers\<close> always stores a fresh array, so it re-runs \<^verbatim>\<open>fetchData\<close>
  too. \<^verbatim>\<open>setError\<close>, \<^verbatim>\<open>setLatestUsers\<close> and the setters of
  \<^verbatim>\<open>fetchData\<close> change no dependency.
\<close>

fun step :: "'n event \<Rightarrow> 'n component \<Rightarrow> 'n component" where
  "step (Change v) c =
     (if selectedEmail (state (world c)) = Some v then c
      else start_fetchData
             (c\<lparr>world := (world c)\<lparr>state := (state (world c))\<lparr>selectedEmail := Some v\<rparr>\<rparr>\<rparr>))"
| "step (LatestUsersSettled res) c =
     (if latest_pending c
      then c\<lparr>world := run (fetchLatestUsers_resume res) (world c), latest_pending := False\<rparr>
      else c)"
| "step (UsersSettled res) c =
     (if users_pending c
      then (let c' = c\<lparr>world := run (fetchUsers_resume res) (world c),
                        users_pending := False\<rparr>
            in if res_error res = None then start_fetchData c' else c')
      else c)"
| "step (DetailSettled i outcome) c =
     (if i < length (in_flight c)
      then c\<lparr>world := run (fetchData_resume outcome) (world c),
             in_flight := take i (in_flight c) @ drop (Suc i) (in_flight c)\<rparr>
      else c)"

definition after :: "'n event list \<Rightarrow> 'n component" where
  "after evs = fold step evs mounted"

section \<open>Rendering\<close>

text \<open>
  What a JSX expression evaluates to: text, a number, an element with its
  attributes and children, or a value that renders nothing (\<^verbatim>\<open>null\<close>,
  \<^verbatim>\<open>undefined\<close>, \<^verbatim>\<open>false\<close>). The \<^verbatim>\<open>style\<close> attributes and the
  event handlers are left out; the elements of a mapped array are spliced into
  the children of their parent.
\<close>

datatype 'n node =
  Text string
| Number 'n
| Elem string "(string \<times> string) list" "'n node list"
| Nothing

definition em :: "string \<Rightarrow> 'n node" where
  "em s = Elem ''em'' [] [Text s]"

definition strong :: "string \<Rightarrow> 'n node" where
  "strong s = Elem ''strong'' [] [Text s]"

text \<open>\<^verbatim>\<open>{v}\<close> for a string field.\<close>

fun str_child :: "string nullable \<Rightarrow> 'n node" where
  "str_child (Present s) = Text s"
| "str_child _ = Nothing"

text \<open>\<^verbatim>\<open>{v || n}\<close> and \<^verbatim>\<open>{v && n}\<close> for a string field.\<close>

definition or_else :: "string nullable \<Rightarrow> 'n node \<Rightarrow> 'n node" where
  "or_else v n = (if truthy_str v then str_child v else n)"

definition and_then :: "string nullable \<Rightarrow> 'n node \<Rightarrow> 'n node" where
  "and_then v n = (if truthy_str v then n else str_child v)"

text \<open>The same two for a \<^verbatim>\<open>string | null\<close> or \<^verbatim>\<open>string | undefined\<close>.\<close>

fun opt_child :: "string option \<Rightarrow> 'n node" where
  "opt_child (Some s) = Text s"
| "opt_child None = Nothing"

definition opt_or_else :: "string option \<Rightarrow> 'n node \<Rightarrow> 'n node" where
  "opt_or_else v n = (if truthy_opt v then opt_child v else n)"

definition opt_and_then :: "string option \<Rightarrow> 'n node \<Rightarrow> 'n node" where
  "opt_and_then v n = (if truthy_opt v then n else opt_child v)"

subsection \<open>The selector\<close>

definition select_options :: "User list \<Rightarrow> 'n node list" where
  "select_options us =
     Elem ''option'' [(''value'', [])] [Text ''-- Select a user --'']
     # map (\<lambda>user. Elem ''option'' [(''key'', user_id user), (''value'', email user)]
                       [Text (email user)]) us"

definition render_select :: "'n app_state \<Rightarrow> 'n node" where
  "render_select s =
     Elem ''select''
       [(''id'', ''email''),
        (''value'', (case selectedEmail s of None \<Rightarrow> [] | Some v \<Rightarrow> v))]
       (select_options (users s))"

subsection \<open>The saved items\<close>

definition en_dash :: string where
  "en_dash = [CHR 0xE2, CHR 0x80, CHR 0x93]"

text \<open>\<^verbatim>\<open>{item.notes || <em>\<close>en dash\<^verbatim>\<open></em>}\<close>\<close>

definition render_notes :: "string option \<Rightarrow> 'n node" where
  "render_notes n = opt_or_else n (em en_dash)"

definition render_item :: "StoredItem \<Rightarrow> 'n node" where
  "render_item it =
     Elem ''tr'' [(''key'', si_id it)]
       [Elem ''td'' [] [Text (item_name it)],
        Elem ''td'' [] [Text (si_location it)],
        Elem ''td'' [] [render_notes (si_notes it)]]"

definition saved_items_heading :: string where
  "saved_items_heading = [CHR 0xF0, CHR 0x9F, CHR 0x93, CHR 0xA6] @ '' Saved Items''"

definition render_items :: "StoredItem list \<Rightarrow> 'n node" where
  "render_items its =
     (if length its > 0
      then Elem ''div'' []
             [Elem ''h3'' [] [Text saved_items_heading],
              Elem ''table'' []
                [Elem ''thead'' []
                   [Elem ''tr'' []
                      [Elem ''th'' [] [Text ''Item''],
                       Elem ''th'' [] [Text ''Location''],
                       Elem ''th'' [] [Text ''Notes'']]],
                 Elem ''tbody'' [] (map render_item its)]]
      else Nothing)"

subsection \<open>The feedback records\<close>

definition yes_text :: string where
  "yes_text = [CHR 0xE2, CHR 0x9C, CHR 0x85] @ '' Yes''"

definition no_text :: string where
  "no_text = [CHR 0xE2, CHR 0x9D, CHR 0x8C] @ '' No''"

text \<open>\<^verbatim>\<open>{f.was_correct ? yes : no}\<close>\<close>

definition render_was_correct :: "bool nullable \<Rightarrow> 'n node" where
  "render_was_correct w = Text (if truthy_bool w then yes_text else no_text)"

text \<open>\<^verbatim>\<open>{f.confidence_score ?? <em>n/a</em>}\<close>\<close>

fun render_confidence :: "'n nullable \<Rightarrow> 'n node" where
  "render_confidence (Present n) = Number n"
| "render_confidence _ = em ''n/a''"

text \<open>
  \<open>fmt\<close> stands for \<^verbatim>\<open>new Date(s).toLocaleString()\<close>, which depends on the
  locale of the browser.
\<close>

definition labelled :: "string \<Rightarrow> 'n node \<Rightarrow> 'n node" where
  "labelled l n = Elem ''div'' [] [strong l, Text '' '', n]"

definition render_audio :: "string nullable \<Rightarrow> 'n node" where
  "render_audio v =
     (case v of
        Present url \<Rightarrow>
          (if url \<noteq> []
           then Elem ''div'' [] [Elem ''audio'' [(''controls'', []), (''src'', url)] []]
           else Text url)
      | _ \<Rightarrow> Nothing)"

definition render_feedback :: "(string \<Rightarrow> string) \<Rightarrow> 'n Feedback \<Rightarrow> 'n node" where
  "render_feedback fmt f =
     Elem ''div'' [(''key'', fb_id f)]
       [Elem ''div'' [] [Text (fmt (fb_created_at f))],
        labelled ''Transcript:'' (or_else (transcript f) (em ''None'')),
        labelled ''Intent:'' (str_child (intent f)),
        labelled ''Action Type:'' (str_child (action_type f)),
        labelled ''Item:'' (str_child (item f)),
        labelled ''Location:'' (or_else (fb_location f) (em ''Not provided'')),
        labelled ''Confidence:'' (render_confidence (confidence_score f)),
        labelled ''Was Correct:'' (render_was_correct (was_correct f)),
        and_then (corrected_item f)
          (labelled ''Corrected Item:'' (str_child (corrected_item f))),
        and_then (corrected_location f)
          (labelled ''Corrected Location:'' (str_child (corrected_location f))),
        and_then (corrected_command f)
          (labelled ''Corrected Command:'' (str_child (corrected_command f))),
        and_then (fb_note f) (labelled ''Note:'' (str_child (fb_note f))),
        render_audio (audio_url f)]"

definition render_feedback_list :: "(string \<Rightarrow> string) \<Rightarrow> 'n Feedback list \<Rightarrow> 'n node" where
  "render_feedback_list fmt fs = Elem ''div'' [] (map (render_feedback fmt) fs)"

subsection \<open>The latest users\<close>

definition latest_users_heading :: string where
  "latest_users_heading =
     [CHR 0xF0, CHR 0x9F, CHR 0xA7, CHR 0x91, CHR 0xE2, CHR 0x80, CHR 0x8D,
      CHR 0xF0, CHR 0x9F, CHR 0x92, CHR 0xBB] @ '' Latest Users''"

definition render_created_at :: "(string \<Rightarrow> string) \<Rightarrow> string option \<Rightarrow> 'n node" where
  "render_created_at fmt v =
     (case v of
        Some d \<Rightarrow> (if d \<noteq> [] then Text (fmt d) else em ''Unknown date'')
      | None \<Rightarrow> em ''Unknown date'')"

definition render_latest_user :: "(string \<Rightarrow> string) \<Rightarrow> User \<Rightarrow> 'n node" where
  "render_latest_user fmt u =
     Elem ''div'' [(''key'', user_id u)]
       [Elem ''div'' [] [Text (email u)],
        Elem ''div'' [] [render_created_at fmt (created_at u)]]"

definition render_latest_users :: "(string \<Rightarrow> string) \<Rightarrow> User list \<Rightarrow> 'n node" where
  "render_latest_users fmt us =
     (if length us > 0
      then Elem ''div'' []
             [Elem ''h3'' [] [Text latest_users_heading],
              Elem ''div'' [] (map (render_latest_user fmt) us)]
      else Nothing)"

subsection \<open>App\<close>

definition render :: "(string \<Rightarrow> string) \<Rightarrow> 'n app_state \<Rightarrow> 'n node" where
  "render fmt s =
     Elem ''div'' []
       [render_latest_users fmt (latestUsers s),
        Elem ''h2'' [] [Text ''Transcript Feedback Viewer''],
        Elem ''label'' [(''htmlFor'', ''email'')] [Text ''Filter by user email:''],
        render_select s,
        (if loading s then Elem ''p'' [] [Text ''Loading data...''] else Nothing),
        opt_and_then (error s) (Elem ''p'' [] [opt_child (error s)]),
        render_items (items s),
        render_feedback_list fmt (feedback s)]"

text \<open>The children of an element.\<close>

fun children :: "'n node \<Rightarrow> 'n node list" where
  "children (Elem _ _ cs) = cs"
| "children _ = []"

section \<open>Properties\<close>

text \<open>
  The invariant of the loading flag: when no \<^verbatim>\<open>fetchData\<close> is waiting, the flag
  is down.
\<close>

definition quiet :: "'n component \<Rightarrow> bool" where
  "quiet c = (in_flight c = [] \<longrightarrow> \<not> loading (state (world c)))"

subsection \<open>Sample data\<close>

definition alice :: User where
  "alice = \<lparr>user_id = ''u1'', email = ''a@x.io'', created_at = None\<rparr>"

definition twin :: User where
  "twin = \<lparr>user_id = ''u2'', email = ''a@x.io'', created_at = None\<rparr>"

definition bob :: User where
  "bob = \<lparr>user_id = ''u3'', email = ''b@x.io'', created_at = Some ''2024-03-01''\<rparr>"

definition old_item :: StoredItem where
  "old_item = \<lparr>si_id = ''i0'', item_name = ''keys'', si_location = ''drawer'',
                si_notes = None, si_created_at = ''2024-01-01''\<rparr>"

definition new_item :: StoredItem where
  "new_item = \<lparr>si_id = ''i1'', item_name = ''phone'', si_location = ''desk'',
                si_notes = Some [], si_created_at = ''2024-02-01''\<rparr>"

definition old_feedback :: "int Feedback" where
  "old_feedback =
     \<lparr>fb_id = ''f0'', fb_created_at = ''2024-01-02'', fb_user_id = ''u1'',
      transcript = Present ''where are my keys'', intent = Present ''find'',
      item = Present ''keys'', fb_location = Null, confidence_score = Present 0,
      action_type = Undefined, was_correct = Null, corrected_item = Undefined,
      corrected_location = Undefined, corrected_command = Undefined,
      fb_note = Present [], audio_url = Null\<rparr>"

definition world_with_item :: "int world" where
  "world_with_item = initial_world\<lparr>state := initial_state\<lparr>items := [old_item]\<rparr>\<rparr>"

definition failed :: "'a response" where
  "failed = \<lparr>res_data = None, res_error = Some (PostgrestError ''boom'')\<rparr>"

definition feedback_failed :: "int Feedback response" where
  "feedback_failed = \<lparr>res_data = None, res_error = Some (PostgrestError ''boom'')\<rparr>"

definition feedback_ok :: "int Feedback response" where
  "feedback_ok = \<lparr>res_data = Some [old_feedback], res_error = None\<rparr>"

definition items_ok :: "StoredItem response" where
  "items_ok = \<lparr>res_data = Some [new_item], res_error = None\<rparr>"


text \<open>
  The users arrive, one is selected, and the feedback query of the detail fetch
  fails.
\<close>

definition session :: "int event list" where
  "session =
     [UsersSettled \<lparr>res_data = Some [alice], res_error = None\<rparr>,
      Change ''a@x.io'',
      DetailSettled 0 (Fulfilled feedback_failed items_ok)]"

text \<open>
  Two selections in a row, and the first detail fetch settles while the second
  is still waiting.
\<close>

definition overlapping :: "int event list" where
  "overlapping =
     [UsersSettled \<lparr>res_data = Some [alice, bob], res_error = None\<rparr>,
      Change ''a@x.io'',
      Change ''b@x.io'',
      DetailSettled 0 (Fulfilled feedback_ok items_ok)]"

subsection \<open>Running effects\<close>

lemma run_Nil: "run [] w = w"
  by (simp add: run_def)

lemma run_Cons: "run (e # es) w = run es (perform e w)"
  by (simp add: run_def)

lemma run_failure:
  "run (on_catch err @ on_finally) w =
     w\<lparr>state := (state w)\<lparr>error := Some ''Failed to load data'', loading := False\<rparr>,
       console := console w @ [[LogErr err]]\<rparr>"
  by (simp add: on_catch_def on_finally_def run_Cons run_Nil)

subsection \<open>The three ways through the start of fetchData\<close>


lemma begin_not_found:
  assumes "truthy_opt sel" and "find (\<lambda>u. Some (email u) = sel) us = None"
  shows "fetchData_begin sel us =
           ([SetLoading True, SetError None, SetError (Some ''Failed to load data''),
             ConsoleError [LogErr (Error ''User not found'')], SetLoading False], None)"
  using assms by (simp add: fetchData_begin_def on_catch_def on_finally_def)

lemma begin_resolved:
  assumes "truthy_opt sel" and "find (\<lambda>u. Some (email u) = sel) us = Some user"
  shows "fetchData_begin sel us =
           ([SetLoading True, SetError None, Request (feedback_query (user_id user)),
             Request (items_query (user_id user))], Some (user_id user))"
  using assms by (simp add: fetchData_begin_def)

lemma begin_found:
  assumes "fetchData_begin sel us = (effs, Some uid)"
  shows "effs = [SetLoading True, SetError None, Request (feedback_query uid),
                 Request (items_query uid)]"
  using assms
  by (auto simp: fetchData_begin_def split: if_splits option.splits)

lemma start_cases:
  "start_fetchData c = c
   \<or> start_fetchData c =
        c\<lparr>world := run [SetLoading True, SetError None, SetError (Some ''Failed to load data''),
             ConsoleError [LogErr (Error ''User not found'')], SetLoading False] (world c)\<rparr>
   \<or> (\<exists>uid. start_fetchData c =
        c\<lparr>world := run [SetLoading True, SetError None, Request (feedback_query uid),
             Request (items_query uid)] (world c), in_flight := in_flight c @ [uid]\<rparr>)"
  by (auto simp: start_fetchData_def fetchData_begin_def on_catch_def on_finally_def run_Nil
           split: option.splits)

subsection \<open>The two ways through its end\<close>

lemma resume_cases:
  "(\<exists>err. fetchData_resume outcome =
           [SetError (Some ''Failed to load data''), ConsoleError [LogErr err],
            SetLoading False])
   \<or> (\<exists>fs its. fetchData_resume outcome =
           [SetFeedback fs, SetItems its, SetLoading False])"
  by (cases outcome)
     (auto simp: fetchData_resume_def on_catch_def on_finally_def split: option.splits)

lemma resume_last: "last (fetchData_resume outcome) = SetLoading False"
  using resume_cases [of outcome] by auto

lemma resume_loading: "\<not> loading (state (run (fetchData_resume outcome) w))"
  using resume_cases [of outcome] by (auto simp: run_Cons run_Nil)

subsection \<open>The loading flag is down whenever nothing is waiting\<close>

lemma quiet_start: "quiet c \<Longrightarrow> quiet (start_fetchData c)"
  using start_cases [of c]
  by (auto simp: quiet_def run_Cons run_Nil)

lemma latest_resume_loading:
  "loading (state (run (fetchLatestUsers_resume res) w)) = loading (state w)"
  by (simp add: fetchLatestUsers_resume_def run_Cons run_Nil split: option.splits)

lemma users_resume_loading:
  "loading (state (run (fetchUsers_resume res) w)) = loading (state w)"
  by (simp add: fetchUsers_resume_def run_Cons run_Nil split: option.splits)

lemma quiet_step: "quiet c \<Longrightarrow> quiet (step ev c)"
proof (cases ev)
  case (Change v)
  assume q: "quiet c"
  have "quiet (c\<lparr>world := (world c)\<lparr>state := (state (world c))\<lparr>selectedEmail := Some v\<rparr>\<rparr>\<rparr>)"
    using q by (simp add: quiet_def)
  then show ?thesis using q Change by (simp add: quiet_start)
next
  case (LatestUsersSettled res)
  assume "quiet c"
  then show ?thesis using LatestUsersSettled
    by (simp add: quiet_def latest_resume_loading)
next
  case (UsersSettled res)
  assume q: "quiet c"
  have "quiet (c\<lparr>world := run (fetchUsers_resume res) (world c), users_pending := False\<rparr>)"
    using q by (simp add: quiet_def users_resume_loading)
  then show ?thesis using q UsersSettled by (simp add: quiet_start Let_def)
next
  case (DetailSettled i outcome)
  assume "quiet c"
  then show ?thesis using DetailSettled
    by (simp add: quiet_def resume_loading)
qed

lemma quiet_fold: "quiet c \<Longrightarrow> quiet (fold step evs c)"
  by (induction evs arbitrary: c) (simp_all add: quiet_step)

lemma quiet_mounted: "quiet mounted"
  unfolding mounted_def
  by (rule quiet_start) (simp add: quiet_def run_def fetchLatestUsers_begin_def
      fetchUsers_begin_def initial_world_def initial_state_def)

lemma quiet_after: "quiet (after evs)"
  unfolding after_def by (rule quiet_fold) (rule quiet_mounted)

text \<open>
  The converse fails: with two detail fetches waiting, the first to settle
  lowers the flag while the second still waits.
\<close>

lemma flag_down_while_waiting:
  "in_flight (after overlapping) = [''u3''] \<and> \<not> loading (state (world (after overlapping)))"
  by (simp add: after_def overlapping_def mounted_def start_fetchData_def fetchData_begin_def
      fetchData_resume_def fetchUsers_resume_def fetchUsers_begin_def fetchLatestUsers_begin_def
      initial_world_def initial_state_def run_def on_catch_def on_finally_def alice_def bob_def
      feedback_ok_def items_ok_def)

lemma after_session:
  "in_flight (after session) = []"
  by (simp add: after_def session_def mounted_def start_fetchData_def fetchData_begin_def
      fetchData_resume_def fetchUsers_resume_def fetchUsers_begin_def fetchLatestUsers_begin_def
      initial_world_def initial_state_def run_def on_catch_def on_finally_def alice_def
      feedback_failed_def items_ok_def)

subsection \<open>The claims\<close>

text \<open>
  C1. In a detail fetch whose two queries were sent, when the feedback query or
  the items query comes back with an error (the other one succeeding or not),
  neither \<^verbatim>\<open>feedback\<close> nor \<^verbatim>\<open>items\<close> is written, at the start of the
  fetch or at its end; the error shown is \<^verbatim>\<open>Failed to load data\<close>; and the
  error of the failed query is what \<^verbatim>\<open>console.error\<close> receives.
\<close>

theorem detail_fetch_all_or_nothing:
  assumes "fetchData_begin sel us = (effs, Some uid)"
    and "res_error feedbackRes = Some err
           \<or> (res_error feedbackRes = None \<and> res_error itemsRes = Some err)"
  shows "feedback (state (run effs w)) = feedback (state w)
       \<and> items (state (run effs w)) = items (state w)
       \<and> feedback (state (run (fetchData_resume (Fulfilled feedbackRes itemsRes)) w')) =
           feedback (state w')
       \<and> items (state (run (fetchData_resume (Fulfilled feedbackRes itemsRes)) w')) =
           items (state w')
       \<and> error (state (run (fetchData_resume (Fulfilled feedbackRes itemsRes)) w')) =
           Some ''Failed to load data''
       \<and> console (run (fetchData_resume (Fulfilled feedbackRes itemsRes)) w') =
           console w' @ [[LogErr err]]"
proof -
  have thrown: "error_or (res_error feedbackRes) (res_error itemsRes) = Some err"
    using assms(2) by auto
  have resume: "fetchData_resume (Fulfilled feedbackRes itemsRes) = on_catch err @ on_finally"
    by (simp add: fetchData_resume_def thrown)
  have start: "effs = [SetLoading True, SetError None, Request (feedback_query uid),
                 Request (items_query uid)]"
    using assms(1) by (rule begin_found)
  show ?thesis
    unfolding resume run_failure
    by (simp add: start run_Cons run_Nil)
qed

theorem detail_fetch_all_or_nothing_witness:
  "(fetchData_begin (Some ''a@x.io'') [alice] :: int effect list \<times> string option) =
     ([SetLoading True, SetError None, Request (feedback_query ''u1''),
       Request (items_query ''u1'')], Some ''u1'')
   \<and> res_error feedback_failed = Some (PostgrestError ''boom'')
   \<and> res_error items_ok = None
   \<and> items (state (run (fetchData_resume (Fulfilled feedback_failed items_ok))
                     world_with_item)) = [old_item]
   \<and> feedback (state (run (fetchData_resume (Fulfilled feedback_failed items_ok))
                     world_with_item)) = []
   \<and> error (state (run (fetchData_resume (Fulfilled feedback_failed items_ok))
                     world_with_item)) = Some ''Failed to load data''
   \<and> console (run (fetchData_resume (Fulfilled feedback_failed items_ok))
                     world_with_item) = [[LogErr (PostgrestError ''boom'')]]"
proof -
  have h1: "(fetchData_begin (Some ''a@x.io'') [alice] :: int effect list \<times> string option) =
     ([SetLoading True, SetError None, Request (feedback_query ''u1''),
       Request (items_query ''u1'')], Some ''u1'')"
    by (simp add: fetchData_begin_def alice_def)
  have h2: "res_error feedback_failed = Some (PostgrestError ''boom'')
      \<or> (res_error feedback_failed = None \<and> res_error items_ok = Some (PostgrestError ''boom''))"
    by (simp add: feedback_failed_def)
  have w: "items (state world_with_item) = [old_item]" "feedback (state world_with_item) = []"
    "console world_with_item = []"
    by (simp_all add: world_with_item_def initial_world_def initial_state_def)
  show ?thesis
    using detail_fetch_all_or_nothing [OF h1 h2, of world_with_item world_with_item] h1
    by (simp add: w feedback_failed_def items_ok_def)
qed

text \<open>
  C2. A \<^verbatim>\<open>fetchData\<close> run over a non-empty selection begins by raising the
  loading flag. When no user matches, the same run ends by lowering it. When
  the queries were sent the flag is up, and whatever the awaited promise yields
  (rejection, a query error, two successes) the run ends by lowering it. After
  any sequence of events, the flag is down whenever no detail fetch is waiting.
\<close>

theorem loading_flag_set_and_cleared:
  fixes w :: "'n world"
  shows
  "(truthy_opt sel \<longrightarrow>
      take 1 (fst (fetchData_begin sel us :: 'n effect list \<times> string option)) =
        [SetLoading True])
   \<and> (truthy_opt sel
        \<and> snd (fetchData_begin sel us :: 'n effect list \<times> string option) = None \<longrightarrow>
        last (fst (fetchData_begin sel us :: 'n effect list \<times> string option)) =
          SetLoading False
        \<and> \<not> loading (state (run (fst (fetchData_begin sel us)) w)))
   \<and> (snd (fetchData_begin sel us :: 'n effect list \<times> string option) \<noteq> None \<longrightarrow>
        loading (state (run (fst (fetchData_begin sel us)) w)))
   \<and> last (fetchData_resume outcome) = SetLoading False
   \<and> \<not> loading (state (run (fetchData_resume outcome) w))
   \<and> (in_flight (after evs :: 'n component) = [] \<longrightarrow>
        \<not> loading (state (world (after evs :: 'n component))))"
proof -
  have a: "truthy_opt sel \<longrightarrow>
      take 1 (fst (fetchData_begin sel us :: 'n effect list \<times> string option)) =
        [SetLoading True]"
    by (auto simp: fetchData_begin_def on_catch_def on_finally_def split: option.splits)
  have b: "truthy_opt sel
        \<and> snd (fetchData_begin sel us :: 'n effect list \<times> string option) = None \<longrightarrow>
        last (fst (fetchData_begin sel us :: 'n effect list \<times> string option)) =
          SetLoading False
        \<and> \<not> loading (state (run (fst (fetchData_begin sel us)) w))"
    by (auto simp: fetchData_begin_def on_catch_def on_finally_def run_Cons run_Nil
        split: option.splits)
  have c: "snd (fetchData_begin sel us :: 'n effect list \<times> string option) \<noteq> None \<longrightarrow>
        loading (state (run (fst (fetchData_begin sel us)) w))"
    by (auto simp: fetchData_begin_def on_catch_def on_finally_def run_Cons run_Nil
        split: option.splits)
  have d: "in_flight (after evs :: 'n component) = [] \<longrightarrow>
        \<not> loading (state (world (after evs :: 'n component)))"
    using quiet_after [of evs] by (simp add: quiet_def)
  have e: "last (fetchData_resume outcome) = SetLoading False"
    by (rule resume_last)
  have f: "\<not> loading (state (run (fetchData_resume outcome) w))"
    by (rule resume_loading)
  show ?thesis
    using a b c d e f by blast
qed

theorem loading_flag_witness:
  "truthy_opt (Some ''a@x.io'')
   \<and> take 1 (fst (fetchData_begin (Some ''a@x.io'') [alice] :: int effect list \<times> string option)) =
       [SetLoading True]
   \<and> snd (fetchData_begin (Some ''a@x.io'') [alice] :: int effect list \<times> string option) \<noteq> None
   \<and> loading (state (run (fst (fetchData_begin (Some ''a@x.io'') [alice])) world_with_item))
   \<and> truthy_opt (Some ''A@x.io'')
   \<and> snd (fetchData_begin (Some ''A@x.io'') [alice] :: int effect list \<times> string option) = None
   \<and> \<not> loading (state (run (fst (fetchData_begin (Some ''A@x.io'') [alice])) world_with_item))
   \<and> in_flight (after session) = []
   \<and> \<not> loading (state (world (after session)))"
proof -
  have found: "snd (fetchData_begin (Some ''a@x.io'') [alice] :: int effect list \<times> string option) \<noteq> None"
    by (simp add: fetchData_begin_def alice_def)
  have missing: "snd (fetchData_begin (Some ''A@x.io'') [alice] :: int effect list \<times> string option) = None"
    by (simp add: fetchData_begin_def alice_def)
  have nothing_waiting: "in_flight (after session) = []"
    by (rule after_session)
  show ?thesis
    using loading_flag_set_and_cleared [of "Some ''a@x.io''" "[alice]" world_with_item
        "Fulfilled feedback_failed items_ok" session]
      loading_flag_set_and_cleared [of "Some ''A@x.io''" "[alice]" world_with_item
        "Fulfilled feedback_failed items_ok" session]
      found missing nothing_waiting
    by auto
qed

text \<open>
  C3, as amended. A selected non-empty email that equals, byte for byte, the
  email of no loaded user makes \<^verbatim>\<open>fetchData\<close> finish at once, before its
  \<^verbatim>\<open>await\<close>: no query is sent and \<^verbatim>\<open>feedback\<close> and \<^verbatim>\<open>items\<close> keep
  their values. The failure is recoverable: the error \<^verbatim>\<open>User not found\<close>
  is thrown and caught locally and reaches \<^verbatim>\<open>console.error\<close> only; what
  is surfaced, in the error state, is the message of the catch block,
  \<^verbatim>\<open>Failed to load data\<close>, and the run ends with the loading flag down.
\<close>

theorem unknown_email_fails_locally:
  fixes w :: "'n world"
  assumes "e \<noteq> []" and "e \<notin> email ` set us"
  shows "fetchData_begin (Some e) us =
           ([SetLoading True, SetError None, SetError (Some ''Failed to load data''),
             ConsoleError [LogErr (Error ''User not found'')], SetLoading False]
              :: 'n effect list, None)
       \<and> network (run (fst (fetchData_begin (Some e) us)) w) = network w
       \<and> feedback (state (run (fst (fetchData_begin (Some e) us)) w)) = feedback (state w)
       \<and> items (state (run (fst (fetchData_begin (Some e) us)) w)) = items (state w)
       \<and> error (state (run (fst (fetchData_begin (Some e) us)) w)) =
           Some ''Failed to load data''
       \<and> console (run (fst (fetchData_begin (Some e) us)) w) =
           console w @ [[LogErr (Error ''User not found'')]]
       \<and> \<not> loading (state (run (fst (fetchData_begin (Some e) us)) w))"
proof -
  have "find (\<lambda>u. Some (email u) = Some e) us = None"
    using assms(2) by (auto simp: find_None_iff)
  then have eq: "\<And>t. (fetchData_begin (Some e) us :: 't effect list \<times> string option) =
           ([SetLoading True, SetError None, SetError (Some ''Failed to load data''),
             ConsoleError [LogErr (Error ''User not found'')], SetLoading False], None)"
    using assms(1) by (simp add: begin_not_found)
  show ?thesis
    unfolding eq by (simp add: run_Cons run_Nil)
qed

theorem unknown_email_witness:
  "''A@x.io'' \<noteq> [] \<and> ''A@x.io'' \<notin> email ` set [alice]
   \<and> network (run (fst (fetchData_begin (Some ''A@x.io'') [alice])) world_with_item) = []
   \<and> items (state (run (fst (fetchData_begin (Some ''A@x.io'') [alice])) world_with_item)) =
       [old_item]
   \<and> console (run (fst (fetchData_begin (Some ''A@x.io'') [alice])) world_with_item) =
       [[LogErr (Error ''User not found'')]]"
proof -
  have h1: "''A@x.io'' \<noteq> []" by simp
  have h2: "''A@x.io'' \<notin> email ` set [alice]" by (simp add: alice_def)
  have w: "network world_with_item = []" "items (state world_with_item) = [old_item]"
    "console world_with_item = []"
    by (simp_all add: world_with_item_def initial_world_def)
  show ?thesis
    using unknown_email_fails_locally [OF h1 h2, of world_with_item] h2
    by (auto simp: w)
qed

text \<open>
  Where C3 as first stated fails: for an email that matches no loaded user
  (here by the case of one letter), the message in the error state, and so the
  paragraph rendered from it, is \<^verbatim>\<open>Failed to load data\<close> and not
  \<^verbatim>\<open>User not found\<close>.
\<close>

theorem unknown_email_counterexample:
  "''A@x.io'' \<noteq> [] \<and> ''A@x.io'' \<notin> email ` set [alice]
   \<and> error (state (run (fst (fetchData_begin (Some ''A@x.io'') [alice]))
                     (initial_world :: int world))) = Some ''Failed to load data''
   \<and> error (state (run (fst (fetchData_begin (Some ''A@x.io'') [alice]))
                     (initial_world :: int world))) \<noteq> Some ''User not found''
   \<and> opt_and_then
         (error (state (run (fst (fetchData_begin (Some ''A@x.io'') [alice]))
                          (initial_world :: int world))))
         (Elem ''p'' []
            [opt_child (error (state (run (fst (fetchData_begin (Some ''A@x.io'') [alice]))
                                        (initial_world :: int world))))]) =
       (Elem ''p'' [] [Text ''Failed to load data''] :: int node)"
  by (simp add: fetchData_begin_def alice_def on_catch_def on_finally_def run_Cons run_Nil
      opt_and_then_def)

text \<open>
  C4. A selected non-empty email that is the email of a loaded user resolves to
  one user of the loaded list, the first whose email equals it byte for byte.
  No lookup query is sent: the only queries are the feedback query and the
  items query, and both filter \<^verbatim>\<open>user_id\<close> by the \<^verbatim>\<open>user_id\<close> of that
  user.
\<close>

theorem selection_resolves_one_user:
  fixes w :: "'n world"
  assumes "e \<noteq> []" and "e \<in> email ` set us"
  shows "\<exists>user. find (\<lambda>u. email u = e) us = Some user \<and> user \<in> set us \<and> email user = e
       \<and> fetchData_begin (Some e) us =
           ([SetLoading True, SetError None, Request (feedback_query (user_id user)),
             Request (items_query (user_id user))] :: 'n effect list, Some (user_id user))
       \<and> q_eq (feedback_query (user_id user)) = [(''user_id'', user_id user)]
       \<and> q_eq (items_query (user_id user)) = [(''user_id'', user_id user)]
       \<and> network (run (fst (fetchData_begin (Some e) us)) w) =
           network w @ [feedback_query (user_id user), items_query (user_id user)]"
proof -
  obtain user where f: "find (\<lambda>u. email u = e) us = Some user"
    using assms(2) by (cases "find (\<lambda>u. email u = e) us") (auto simp: find_None_iff)
  then have m: "user \<in> set us" "email user = e"
    by (auto simp: find_Some_iff)
  have eq: "\<And>t. (fetchData_begin (Some e) us :: 't effect list \<times> string option) =
           ([SetLoading True, SetError None, Request (feedback_query (user_id user)),
             Request (items_query (user_id user))], Some (user_id user))"
    using assms(1) f by (simp add: begin_resolved)
  have "network (run (fst (fetchData_begin (Some e) us)) w) =
           network w @ [feedback_query (user_id user), items_query (user_id user)]"
    unfolding eq by (simp add: run_Cons run_Nil)
  then show ?thesis
    using f m eq by (simp add: feedback_query_def items_query_def)
qed

theorem selection_resolves_one_user_witness:
  "''a@x.io'' \<noteq> [] \<and> ''a@x.io'' \<in> email ` set [alice, twin]
   \<and> find (\<lambda>u. email u = ''a@x.io'') [alice, twin] = Some alice
   \<and> (fetchData_begin (Some ''a@x.io'') [alice, twin] :: int effect list \<times> string option) =
       ([SetLoading True, SetError None, Request (feedback_query ''u1''),
         Request (items_query ''u1'')], Some ''u1'')"
proof -
  have h1: "''a@x.io'' \<noteq> []" by simp
  have h2: "''a@x.io'' \<in> email ` set [alice, twin]" by (simp add: alice_def)
  have f: "find (\<lambda>u. email u = ''a@x.io'') [alice, twin] = Some alice"
    by (simp add: alice_def)
  show ?thesis
    using selection_resolves_one_user [OF h1 h2, where ?'n = int] h2 f
    by (auto simp: alice_def)
qed




text \<open>
  C7. \<^verbatim>\<open>fetchLatestUsers\<close> sends one query: table \<^verbatim>\<open>user_profiles\<close>, columns
  \<^verbatim>\<open>user_id, email, created_at\<close>, no filter, ordered by \<^verbatim>\<open>created_at\<close>
  descending, limit 10. When the query comes back with an error, the only
  effect is one \<^verbatim>\<open>console.error\<close>: the whole state, \<^verbatim>\<open>latestUsers\<close> and
  \<^verbatim>\<open>error\<close> included, is as before.
\<close>

theorem latest_users_query_and_failure:
  fixes w :: "'n world" and c :: "'n component"
  shows "(fetchLatestUsers_begin :: 'n effect list) = [Request latest_users_query]
   \<and> q_table latest_users_query = ''user_profiles''
   \<and> q_columns latest_users_query = ''user_id, email, created_at''
   \<and> q_eq latest_users_query = []
   \<and> q_order latest_users_query = ''created_at''
   \<and> \<not> q_ascending latest_users_query
   \<and> q_limit latest_users_query = Some 10
   \<and> (res_error res = Some err \<longrightarrow>
        (fetchLatestUsers_resume res :: 'n effect list) =
          [ConsoleError [LogStr ''Failed to fetch latest users:'', LogErr err]]
        \<and> state (run (fetchLatestUsers_resume res) w) = state w
        \<and> network (run (fetchLatestUsers_resume res) w) = network w
        \<and> console (run (fetchLatestUsers_resume res) w) =
            console w @ [[LogStr ''Failed to fetch latest users:'', LogErr err]]
        \<and> state (world (step (LatestUsersSettled res) c)) = state (world c))"
  by (simp add: fetchLatestUsers_begin_def latest_users_query_def
      fetchLatestUsers_resume_def run_Cons run_Nil)

theorem latest_users_query_and_failure_witness:
  "res_error (failed :: User response) = Some (PostgrestError ''boom'')
   \<and> state (run (fetchLatestUsers_resume failed) world_with_item) = state world_with_item
   \<and> latestUsers (state (world (step (LatestUsersSettled failed) (mounted :: int component)))) = []
   \<and> error (state (world (step (LatestUsersSettled failed) (mounted :: int component)))) = None
   \<and> console (run (fetchLatestUsers_resume failed) world_with_item) =
       [[LogStr ''Failed to fetch latest users:'', LogErr (PostgrestError ''boom'')]]"
proof -
  have h: "res_error (failed :: User response) = Some (PostgrestError ''boom'')"
    by (simp add: failed_def)
  have m: "state (world (mounted :: int component)) = initial_state"
    by (simp add: mounted_def start_fetchData_def fetchData_begin_def initial_world_def
        initial_state_def run_def fetchLatestUsers_begin_def fetchUsers_begin_def)
  have w: "console world_with_item = []"
    by (simp add: world_with_item_def initial_world_def)
  show ?thesis
    using latest_users_query_and_failure
      [of failed "PostgrestError ''boom''" world_with_item mounted] h
    by (auto simp: m w initial_state_def)
qed

text \<open>
  C8. The selector has one option more than there are loaded users, and the
  first option is the placeholder with the empty value; after a successful load
  of the users that is the number of rows of the result plus one.
\<close>

theorem selector_option_count:
  fixes w :: "'n world" and s :: "'n app_state"
  shows "length (select_options us :: 'n node list) = length us + 1
   \<and> take 1 (select_options us :: 'n node list) =
       [Elem ''option'' [(''value'', [])] [Text ''-- Select a user --'']]
   \<and> length (children (render_select s)) = length (users s) + 1
   \<and> length (children (render_select
        (state (run (fetchUsers_resume \<lparr>res_data = Some rows, res_error = None\<rparr>) w)))) =
       length rows + 1"
  by (simp add: select_options_def render_select_def fetchUsers_resume_def run_Cons run_Nil)




end
